theory Spec2Isabelle
  imports Main "HOL-Library.Sublist"
begin

section \<open>JavaScript values and strings\<close>

text \<open>
  The driver is TypeScript; what it computes is decided by the JavaScript semantics of
  the few operations it uses: truthiness (\<open>!x\<close>, \<open>c ? a : b\<close>), nullish coalescing
  (\<open>a ?? b\<close>), property reads, strict equality with a string literal, template
  literals and \<open>String.prototype.replace\<close> with a string pattern.

  Strings are lists of characters. The driver only searches, cuts and concatenates
  strings and compares characters with ASCII characters, which is the same on UTF-16
  code units as on the characters used here.
\<close>

text \<open>
  A JavaScript number is a double: not-a-number, an infinity with its sign, or a
  finite value given by sign, mantissa and binary exponent (mantissa 0 is +0 or -0).
\<close>

datatype js_number = NaN | Infinity bool | Finite bool nat int

text \<open>
  The values a request parameter or a response body can hold. \<open>JSFunction n\<close> is the
  built-in function object named \<open>n\<close>; it is what reading an inherited method such as
  \<open>s.sub\<close> on a string \<open>s\<close> gives.
\<close>

datatype js_value =
    JSUndefined
  | JSNull
  | JSBoolean bool
  | JSNumber js_number
  | JSString string
  | JSArray "js_value list"
  | JSObject "(string \<times> js_value) list"
  | JSFunction string

text \<open>\<open>ToBoolean\<close>: the test of \<open>c ? a : b\<close>.\<close>

fun toBoolean :: "js_value \<Rightarrow> bool" where
  "toBoolean JSUndefined = False"
| "toBoolean JSNull = False"
| "toBoolean (JSBoolean b) = b"
| "toBoolean (JSNumber NaN) = False"
| "toBoolean (JSNumber (Infinity s)) = True"
| "toBoolean (JSNumber (Finite s m e)) = (m \<noteq> 0)"
| "toBoolean (JSString s) = (s \<noteq> [])"
| "toBoolean (JSArray xs) = True"
| "toBoolean (JSObject kvs) = True"
| "toBoolean (JSFunction n) = True"

text \<open>
  \<open>!x\<close> for an optional string field (\<open>realm?: string\<close>): true for \<open>undefined\<close> and
  for the empty string.
\<close>

definition isFalsy :: "string option \<Rightarrow> bool" where
  "isFalsy x = (case x of None \<Rightarrow> True | Some s \<Rightarrow> s = [])"

text \<open>\<open>a ?? b\<close> for an optional field \<open>a\<close>: \<open>b\<close> only when \<open>a\<close> is \<open>undefined\<close>.\<close>

definition nullishCoalescing :: "'a option \<Rightarrow> 'a \<Rightarrow> 'a" where
  "nullishCoalescing a b = (case a of None \<Rightarrow> b | Some x \<Rightarrow> x)"

text \<open>\<open>v === 'literal'\<close>: true only for a string value with the same characters.\<close>

fun strictEqualsString :: "js_value \<Rightarrow> string \<Rightarrow> bool" where
  "strictEqualsString (JSString s) t = (s = t)"
| "strictEqualsString v t = False"

text \<open>
  \<open>v.key\<close> for a value \<open>v\<close> that is neither \<open>null\<close> nor \<open>undefined\<close> (for those the
  read throws, see \<open>getUserInfo\<close>) and for the property names the driver reads:
  \<open>sub\<close>, \<open>preferred_username\<close>, \<open>family_name\<close>, \<open>given_name\<close>, \<open>name\<close>, \<open>email\<close>,
  \<open>email_verified\<close>. An object answers with its own property or \<open>undefined\<close>; of the
  prototypes only \<open>String.prototype\<close> (\<open>sub\<close>) and function objects (\<open>name\<close>) have
  one of these names.
\<close>

fun getProperty :: "js_value \<Rightarrow> string \<Rightarrow> js_value" where
  "getProperty (JSObject kvs) key = (case map_of kvs key of None \<Rightarrow> JSUndefined | Some v \<Rightarrow> v)"
| "getProperty (JSString s) key =
     (if key = ''sub'' then JSFunction ''sub'' else JSUndefined)"
| "getProperty (JSFunction n) key =
     (if key = ''name'' then JSString n else JSUndefined)"
| "getProperty v key = JSUndefined"

subsection \<open>\<open>String.prototype.replace\<close> with a string pattern\<close>

text \<open>
  \<open>StringIndexOf(string, searchValue, 0)\<close>: the least index at which \<open>searchValue\<close>
  occurs, \<open>None\<close> for the result -1.
\<close>

fun stringIndexOf :: "string \<Rightarrow> string \<Rightarrow> nat option" where
  "stringIndexOf [] searchValue = (if searchValue = [] then Some 0 else None)"
| "stringIndexOf (c # cs) searchValue =
     (if prefix searchValue (c # cs) then Some 0
      else map_option Suc (stringIndexOf cs searchValue))"

text \<open>
  \<open>GetSubstitution\<close> for a string pattern (no captures): in the replacement text
  \<open>$$\<close> stands for \<open>$\<close>, \<open>$&\<close> for the matched text, \<open>$`\<close> for the text before the
  match and \<open>$'\<close> for the text after it; every other character, also a \<open>$\<close> before
  anything else, is copied.
\<close>

fun getSubstitution :: "string \<Rightarrow> string \<Rightarrow> string \<Rightarrow> string \<Rightarrow> string" where
  "getSubstitution matched preceding following [] = []"
| "getSubstitution matched preceding following [c] = [c]"
| "getSubstitution matched preceding following (c # d # templ) =
     (if c = CHR ''$'' \<and> d = CHR ''$'' then
        CHR ''$'' # getSubstitution matched preceding following templ
      else if c = CHR ''$'' \<and> d = CHR ''&'' then
        matched @ getSubstitution matched preceding following templ
      else if c = CHR ''$'' \<and> d = CHR ''`'' then
        preceding @ getSubstitution matched preceding following templ
      else if c = CHR ''$'' \<and> d = CHR 0x27 then
        following @ getSubstitution matched preceding following templ
      else c # getSubstitution matched preceding following (d # templ))"

text \<open>
  \<open>string.replace(searchValue, replaceValue)\<close>, both strings: only the first
  occurrence is replaced, by the expansion of \<open>replaceValue\<close>.
\<close>

definition replace :: "string \<Rightarrow> string \<Rightarrow> string \<Rightarrow> string" where
  "replace s searchValue replaceValue =
     (case stringIndexOf s searchValue of
        None \<Rightarrow> s
      | Some pos \<Rightarrow>
          (let preceding = take pos s;
               following = drop (pos + length searchValue) s
           in preceding
              @ getSubstitution searchValue preceding following replaceValue
              @ following))"

section \<open>Configuration, request context and driver\<close>

datatype error = Error string | TypeError

text \<open>\<open>KeycloakConfig\<close>; a field marked \<open>?\<close> in the source is an option.\<close>

record KeycloakConfig =
  driver :: string
  keycloakUrl :: "string option"
  realm :: "string option"
  clientId :: string
  clientSecret :: string
  callbackUrl :: string
  authorizeUrl :: "string option"
  accessTokenUrl :: "string option"
  userInfoUrl :: "string option"

record KeycloakAccessToken =
  token :: string
  type :: string

text \<open>
  \<open>KeycloakUserContract\<close>. The payload is untyped at run time, so the fields copied
  from it are JavaScript values. The field \<open>id\<close> of the source is \<open>id'\<close> here.
\<close>

record KeycloakUserContract =
  id' :: js_value
  nickName :: js_value
  lastName :: js_value
  firstName :: js_value
  name :: js_value
  email :: js_value
  avatarUrl :: js_value
  emailVerificationState :: string
  original :: js_value
  token :: KeycloakAccessToken

text \<open>
  Of the framework's \<open>HttpContext\<close> the driver uses the request's input and, through the
  inherited \<open>loadState\<close>, its cookies. The request has a query string and a body;
  \<open>request.input(key)\<close> reads the request data, which is the body overlaid with the
  query string: the query-string parameter of that name, and the body field of that
  name when the query string has none.
\<close>

record HttpContext =
  qs :: "string \<rightharpoonup> js_value"
  body :: "string \<rightharpoonup> js_value"
  cookies :: "string \<rightharpoonup> string"

definition input :: "HttpContext \<Rightarrow> string \<Rightarrow> js_value option" where
  "input c key = (case qs c key of Some v \<Rightarrow> Some v | None \<Rightarrow> body c key)"

record KeycloakDriver =
  ctx :: HttpContext
  config :: KeycloakConfig
  authorizeUrl :: string
  accessTokenUrl :: string
  userInfoUrl :: string
  codeParamName :: string
  errorParamName :: string
  stateCookieName :: string
  stateParamName :: string
  scopeParamName :: string
  scopesSeparator :: string
  stateCookieValue :: "string option"

text \<open>
  \<open>buildKeycloakUrl\<close> reads \<open>this.config\<close> only, so the model takes the configuration.
  The source asserts both fields with \<open>!\<close>; without the assertion a missing
  \<open>keycloakUrl\<close> is a \<open>TypeError\<close> and a missing \<open>realm\<close> is
  replaced by the text \<open>undefined\<close>.
\<close>

definition buildKeycloakUrl :: "KeycloakConfig \<Rightarrow> string \<Rightarrow> error + string" where
  "buildKeycloakUrl cfg action =
     (case keycloakUrl cfg of
        None \<Rightarrow> Inl TypeError
      | Some u \<Rightarrow>
          Inr (replace
                 (replace u ''{{realm}}''
                    (case realm cfg of None \<Rightarrow> ''undefined'' | Some r \<Rightarrow> r))
                 ''{{action}}'' action))"

text \<open>
  The inherited \<open>loadState\<close> belongs to the framework. It is modelled as the
  specification describes it: it reads the state cookie and clears it.
\<close>

definition loadState :: "KeycloakDriver \<Rightarrow> KeycloakDriver" where
  "loadState d =
     d\<lparr>stateCookieValue := cookies (ctx d) (stateCookieName d),
       ctx := (ctx d)\<lparr>cookies := (cookies (ctx d))(stateCookieName d := None)\<rparr>\<rparr>"

definition realmMissing :: string where
  "realmMissing =
     ''Keycloak driver needs the '' @ [CHR 0x22] @ ''realm'' @ [CHR 0x22] @ '' to be defined''"

definition keycloakUrlMissing :: string where
  "keycloakUrlMissing =
     ''Keycloak driver needs the '' @ [CHR 0x22] @ ''keycloakUrl'' @ [CHR 0x22]
       @ '' to be defined''"

text \<open>
  The constructor: the two checks, then the three endpoint fields, then \<open>loadState\<close>.
  The other fields have the initial values of the class.
\<close>

definition new_KeycloakDriver :: "HttpContext \<Rightarrow> KeycloakConfig \<Rightarrow> error + KeycloakDriver" where
  "new_KeycloakDriver c cfg =
     (if isFalsy (realm cfg) then Inl (Error realmMissing)
      else if isFalsy (keycloakUrl cfg) then Inl (Error keycloakUrlMissing)
      else
        (case buildKeycloakUrl cfg ''auth'' of
           Inl e \<Rightarrow> Inl e
         | Inr a \<Rightarrow>
        (case buildKeycloakUrl cfg ''token'' of
           Inl e \<Rightarrow> Inl e
         | Inr t \<Rightarrow>
        (case buildKeycloakUrl cfg ''userinfo'' of
           Inl e \<Rightarrow> Inl e
         | Inr u \<Rightarrow>
             Inr (loadState
                   \<lparr>ctx = c, config = cfg,
                    authorizeUrl = a, accessTokenUrl = t, userInfoUrl = u,
                    codeParamName = ''code'', errorParamName = ''error'',
                    stateCookieName = ''keycloak_oauth_state'',
                    stateParamName = ''state'', scopeParamName = ''scope'',
                    scopesSeparator = '' '', stateCookieValue = None\<rparr>)))))"

text \<open>\<open>accessDenied\<close>: \<open>this.ctx.request.input('error') === 'user_denied'\<close>.\<close>

definition accessDenied :: "KeycloakDriver \<Rightarrow> bool" where
  "accessDenied d =
     (case input (ctx d) ''error'' of
        None \<Rightarrow> False
      | Some v \<Rightarrow> strictEqualsString v ''user_denied'')"

section \<open>The user-info request\<close>

text \<open>
  The framework's request object (\<open>ApiRequest\<close>), as far as the driver and a customizer
  reach it through its interface: the URL it was created for, and the headers, query
  parameters and parse mode set on it. \<open>header\<close> and \<open>parseAs\<close> overwrite an earlier
  setting, which is what lets a later caller win.
\<close>

record ApiRequest =
  baseUrl :: string
  headers :: "string \<rightharpoonup> string"
  params :: "string \<rightharpoonup> string"
  responseType :: "string option"

definition httpClient :: "string \<Rightarrow> ApiRequest" where
  "httpClient url =
     \<lparr>baseUrl = url, headers = Map.empty, params = Map.empty, responseType = None\<rparr>"

definition header :: "string \<Rightarrow> string \<Rightarrow> ApiRequest \<Rightarrow> ApiRequest" where
  "header key v request = request\<lparr>headers := (headers request)(key \<mapsto> v)\<rparr>"

definition param :: "string \<Rightarrow> string \<Rightarrow> ApiRequest \<Rightarrow> ApiRequest" where
  "param key v request = request\<lparr>params := (params request)(key \<mapsto> v)\<rparr>"

definition parseAs :: "string \<Rightarrow> ApiRequest \<Rightarrow> ApiRequest" where
  "parseAs t request = request\<lparr>responseType := Some t\<rparr>"

definition getAuthenticatedRequest :: "string \<Rightarrow> string \<Rightarrow> ApiRequest" where
  "getAuthenticatedRequest url tok =
     parseAs ''json''
       (header ''Accept'' ''application/json''
          (header ''Authorization'' (''Bearer '' @ tok) (httpClient url)))"

text \<open>
  Everything outside the driver is a state \<open>'w\<close>: the provider, the network and
  whatever the caller's customizer closes over. An operation that touches it takes the
  state and returns an error or a value together with the new state.

  A customizer (\<open>Callback\<close>) receives the request object and changes it through its
  interface; it may fail. The URL of a request is private to the object, so a
  customizer leaves it as it is.
\<close>

type_synonym ('a, 'w) action = "'w \<Rightarrow> (error + 'a) \<times> 'w"

type_synonym 'w Callback = "ApiRequest \<Rightarrow> (ApiRequest, 'w) action"

text \<open>
  What the driver inherits from the framework and calls: the authorization-code
  exchange \<open>this.accessToken(callback)\<close> and the sending of a request,
  \<open>request.get()\<close>, which answers with the parsed body.
\<close>

record 'w Oauth2Driver =
  accessToken :: "KeycloakDriver \<Rightarrow> 'w Callback option \<Rightarrow> (KeycloakAccessToken, 'w) action"
  request_get :: "ApiRequest \<Rightarrow> (js_value, 'w) action"

text \<open>\<open>if (typeof callback === 'function') { callback(request) }\<close>\<close>

definition invokeCallback :: "'w Callback option \<Rightarrow> ApiRequest \<Rightarrow> (ApiRequest, 'w) action" where
  "invokeCallback callback request w =
     (case callback of
        None \<Rightarrow> (Inr request, w)
      | Some f \<Rightarrow>
          (case f request w of
             (Inl e, w') \<Rightarrow> (Inl e, w')
           | (Inr request', w') \<Rightarrow> (Inr (request'\<lparr>baseUrl := baseUrl request\<rparr>), w')))"

text \<open>
  The record that \<open>getUserInfo\<close> returns, built from the payload \<open>user\<close>. Reading a
  property of \<open>null\<close> or \<open>undefined\<close> throws a \<open>TypeError\<close>.
\<close>

definition toUser :: "js_value \<Rightarrow> string \<Rightarrow> error + KeycloakUserContract" where
  "toUser user tok =
     (if user = JSUndefined \<or> user = JSNull then Inl TypeError
      else
        Inr \<lparr>id' = getProperty user ''sub'',
             nickName = getProperty user ''preferred_username'',
             lastName = getProperty user ''family_name'',
             firstName = getProperty user ''given_name'',
             name = getProperty user ''name'',
             email = getProperty user ''email'',
             avatarUrl = JSNull,
             emailVerificationState =
               (if toBoolean (getProperty user ''email_verified'')
                then ''verified'' else ''unverified''),
             original = user,
             token = \<lparr>KeycloakAccessToken.token = tok, type = ''bearer''\<rparr>\<rparr>)"

text \<open>
  \<open>getUserInfo\<close>: the request for \<open>this.config.userInfoUrl ?? this.userInfoUrl\<close>, the
  customizer, \<open>request.get()\<close>, the record.
\<close>

definition getUserInfo ::
  "'w Oauth2Driver \<Rightarrow> KeycloakDriver \<Rightarrow> string \<Rightarrow> 'w Callback option
    \<Rightarrow> (KeycloakUserContract, 'w) action" where
  "getUserInfo fw d tok callback w =
     (let request =
            getAuthenticatedRequest
              (nullishCoalescing (KeycloakConfig.userInfoUrl (config d))
                 (KeycloakDriver.userInfoUrl d))
              tok
      in case invokeCallback callback request w of
           (Inl e, w1) \<Rightarrow> (Inl e, w1)
         | (Inr request1, w1) \<Rightarrow>
             (case request_get fw request1 w1 of
                (Inl e, w2) \<Rightarrow> (Inl e, w2)
              | (Inr user, w2) \<Rightarrow> (toUser user tok, w2)))"

definition user ::
  "'w Oauth2Driver \<Rightarrow> KeycloakDriver \<Rightarrow> 'w Callback option
    \<Rightarrow> (KeycloakUserContract, 'w) action" where
  "user fw d callback w =
     (case accessToken fw d callback w of
        (Inl e, w1) \<Rightarrow> (Inl e, w1)
      | (Inr tok, w1) \<Rightarrow> getUserInfo fw d (KeycloakAccessToken.token tok) callback w1)"

definition userFromToken ::
  "'w Oauth2Driver \<Rightarrow> KeycloakDriver \<Rightarrow> string \<Rightarrow> 'w Callback option
    \<Rightarrow> (KeycloakUserContract, 'w) action" where
  "userFromToken fw d tok callback w = getUserInfo fw d tok callback w"

section \<open>Notions of the specification and example values\<close>

text \<open>
  Literal substitution, in the words of the specification: \<open>replaceFirst pat rep s\<close> is
  \<open>s\<close> with its first occurrence of \<open>pat\<close> replaced by the text \<open>rep\<close> as it stands;
  whatever follows that occurrence, further occurrences included, is kept.
\<close>

fun replaceFirst :: "string \<Rightarrow> string \<Rightarrow> string \<Rightarrow> string" where
  "replaceFirst pat rep [] = (if pat = [] then rep else [])"
| "replaceFirst pat rep (c # cs) =
     (if prefix pat (c # cs) then rep @ drop (length pat) (c # cs)
      else c # replaceFirst pat rep cs)"

text \<open>
  A text has a replacement pattern when somewhere in it a dollar sign is followed by
  a dollar sign, an ampersand, a backquote or a quote.
\<close>

fun hasReplacementPattern :: "string \<Rightarrow> bool" where
  "hasReplacementPattern [] = False"
| "hasReplacementPattern [c] = False"
| "hasReplacementPattern (c # d # templ) =
     (c = CHR ''$'' \<and> (d = CHR ''$'' \<or> d = CHR ''&'' \<or> d = CHR ''`'' \<or> d = CHR 0x27)
      \<or> hasReplacementPattern (d # templ))"

text \<open>
  The endpoint the driver uses for the user-info fetch: the URL that \<open>getUserInfo\<close>
  hands to \<open>getAuthenticatedRequest\<close>, \<open>this.config.userInfoUrl ?? this.userInfoUrl\<close>.
\<close>

definition userInfoEndpoint :: "KeycloakDriver \<Rightarrow> string" where
  "userInfoEndpoint d =
     nullishCoalescing (KeycloakConfig.userInfoUrl (config d)) (KeycloakDriver.userInfoUrl d)"

text \<open>
  Modelled from the spec: the inherited OAuth2 client's choice of the authorize URL
  for the redirect and of the token URL for the code exchange. The client is the
  framework's and its code is not part of this repository. The specification has the
  endpoint derived from the template unless the configuration explicitly supplies an
  override: the override when one is supplied, the driver's field otherwise, as
  \<open>getUserInfo\<close> does for the user-info URL.
\<close>

definition authorizeEndpoint :: "KeycloakDriver \<Rightarrow> string" where
  "authorizeEndpoint d =
     nullishCoalescing (KeycloakConfig.authorizeUrl (config d)) (KeycloakDriver.authorizeUrl d)"

definition accessTokenEndpoint :: "KeycloakDriver \<Rightarrow> string" where
  "accessTokenEndpoint d =
     nullishCoalescing (KeycloakConfig.accessTokenUrl (config d))
       (KeycloakDriver.accessTokenUrl d)"

text \<open>An error message identifies a field when it contains the field's name in double quotes.\<close>

definition identifies :: "string \<Rightarrow> string \<Rightarrow> bool" where
  "identifies msg field = sublist ([CHR 0x22] @ field @ [CHR 0x22]) msg"

definition exampleConfig :: KeycloakConfig where
  "exampleConfig =
     \<lparr>driver = ''keycloak'',
      keycloakUrl = Some ''https://host/realms/{{realm}}/protocol/openid-connect/{{action}}'',
      realm = Some ''r1'',
      clientId = ''app'', clientSecret = ''secret'',
      callbackUrl = ''https://app/keycloak/callback'',
      authorizeUrl = None, accessTokenUrl = None, userInfoUrl = None\<rparr>"

definition exampleContext :: HttpContext where
  "exampleContext = \<lparr>qs = Map.empty, body = Map.empty, cookies = Map.empty\<rparr>"

text \<open>A realm with a replacement pattern.\<close>

definition dollarConfig :: KeycloakConfig where
  "dollarConfig =
     exampleConfig\<lparr>keycloakUrl := Some ''{{realm}}/{{action}}'', realm := Some ''a$$b''\<rparr>"

text \<open>A configuration with all three overrides, and one with an empty realm.\<close>

definition overrideConfig :: KeycloakConfig where
  "overrideConfig =
     exampleConfig
       \<lparr>KeycloakConfig.authorizeUrl := Some ''https://other/authorize'',
        KeycloakConfig.accessTokenUrl := Some ''https://other/token'',
        KeycloakConfig.userInfoUrl := Some ''https://other/me''\<rparr>"

definition emptyRealmConfig :: KeycloakConfig where
  "emptyRealmConfig = exampleConfig\<lparr>realm := Some []\<rparr>"

text \<open>
  The outgoing user-info request: the request object of \<open>getUserInfo\<close> as it is when
  \<open>request.get()\<close> is called on it, with the state the customizer has left.
\<close>

definition userInfoRequest ::
  "KeycloakDriver \<Rightarrow> string \<Rightarrow> 'w Callback option \<Rightarrow> (ApiRequest, 'w) action" where
  "userInfoRequest d tok callback w =
     invokeCallback callback
       (getAuthenticatedRequest
          (nullishCoalescing (KeycloakConfig.userInfoUrl (config d)) (KeycloakDriver.userInfoUrl d))
          tok)
       w"




text \<open>
  An outside world for the examples: it counts the runs of the customizer and keeps
  the requests that were sent, in order. Its provider answers every request with the
  payload of the specification's example, and its code exchange yields the token
  \<open>tok\<close>.
\<close>

record exampleWorld =
  invocations :: nat
  sent :: "ApiRequest list"

definition exampleStart :: exampleWorld where
  "exampleStart = \<lparr>invocations = 0, sent = []\<rparr>"

definition examplePayload :: "bool \<Rightarrow> js_value" where
  "examplePayload verified =
     JSObject
       [(''sub'', JSString ''u1''),
        (''preferred_username'', JSString ''bob''),
        (''family_name'', JSString ''Smith''),
        (''given_name'', JSString ''Bob''),
        (''name'', JSString ''Bob Smith''),
        (''email'', JSString ''b@x.com''),
        (''email_verified'', JSBoolean verified)]"

definition exampleFramework :: "bool \<Rightarrow> exampleWorld Oauth2Driver" where
  "exampleFramework verified =
     \<lparr>accessToken =
        (\<lambda>d callback w. (Inr \<lparr>KeycloakAccessToken.token = ''tok'', type = ''bearer''\<rparr>, w)),
      request_get =
        (\<lambda>request w. (Inr (examplePayload verified), w\<lparr>sent := sent w @ [request]\<rparr>))\<rparr>"


definition acceptTextCallback :: "exampleWorld Callback" where
  "acceptTextCallback request w =
     (Inr (header ''Accept'' ''text/plain'' request),
      w\<lparr>invocations := Suc (invocations w)\<rparr>)"

text \<open>The drivers constructed from \<open>exampleConfig\<close> and from \<open>overrideConfig\<close>.\<close>

definition exampleDriver :: KeycloakDriver where
  "exampleDriver =
     \<lparr>ctx = exampleContext, config = exampleConfig,
      authorizeUrl = ''https://host/realms/r1/protocol/openid-connect/auth'',
      accessTokenUrl = ''https://host/realms/r1/protocol/openid-connect/token'',
      userInfoUrl = ''https://host/realms/r1/protocol/openid-connect/userinfo'',
      codeParamName = ''code'', errorParamName = ''error'',
      stateCookieName = ''keycloak_oauth_state'',
      stateParamName = ''state'', scopeParamName = ''scope'',
      scopesSeparator = '' '', stateCookieValue = None\<rparr>"

definition exampleOverrideDriver :: KeycloakDriver where
  "exampleOverrideDriver = exampleDriver\<lparr>config := overrideConfig\<rparr>"

text \<open>
  A framework whose code exchange, as the inherited one does, runs the customizer on
  its own request, the one for the token endpoint, and sends that request.
\<close>

definition exchangingFramework :: "exampleWorld Oauth2Driver" where
  "exchangingFramework =
     \<lparr>accessToken =
        (\<lambda>d callback w.
           case invokeCallback callback (httpClient (accessTokenEndpoint d)) w of
             (Inl e, w') \<Rightarrow> (Inl e, w')
           | (Inr request, w') \<Rightarrow>
               (Inr \<lparr>KeycloakAccessToken.token = ''tok'', type = ''bearer''\<rparr>,
                w'\<lparr>sent := sent w' @ [request]\<rparr>)),
      request_get =
        (\<lambda>request w. (Inr (examplePayload True), w\<lparr>sent := sent w @ [request]\<rparr>))\<rparr>"

text \<open>
  A request without an \<open>error\<close> query parameter whose body has the field \<open>error\<close> with
  the value \<open>user_denied\<close>.
\<close>

definition bodyDeniedContext :: HttpContext where
  "bodyDeniedContext =
     \<lparr>qs = Map.empty, body = [''error'' \<mapsto> JSString ''user_denied''], cookies = Map.empty\<rparr>"

section \<open>Lemmas\<close>

subsection \<open>Replacement\<close>

lemma getSubstitution_literal:
  "\<not> hasReplacementPattern templ \<Longrightarrow> getSubstitution m p f templ = templ"
  by (induction m p f templ rule: getSubstitution.induct) auto

lemma replace_literal:
  assumes "\<not> hasReplacementPattern rep"
  shows "replace s pat rep = replaceFirst pat rep s"
proof (induction s)
  case Nil
  show ?case using assms by (simp add: replace_def getSubstitution_literal)
next
  case (Cons c cs)
  show ?case
  proof (cases "prefix pat (c # cs)")
    case True
    then show ?thesis using assms by (simp add: replace_def getSubstitution_literal)
  next
    case False
    then show ?thesis
      using Cons assms
      by (cases "stringIndexOf cs pat") (simp_all add: replace_def getSubstitution_literal)
  qed
qed

lemma buildKeycloakUrl_literal:
  assumes "keycloakUrl cfg = Some u" "realm cfg = Some r"
    and "\<not> hasReplacementPattern r" "\<not> hasReplacementPattern a"
  shows "buildKeycloakUrl cfg a =
     Inr (replaceFirst ''{{action}}'' a (replaceFirst ''{{realm}}'' r u))"
  using assms by (simp add: buildKeycloakUrl_def replace_literal)

lemma derive_realm:
  "replace ''https://host/realms/{{realm}}/protocol/openid-connect/{{action}}'' ''{{realm}}'' ''r1''
     = ''https://host/realms/r1/protocol/openid-connect/{{action}}''"
  by code_simp

lemma derive_auth:
  "replace ''https://host/realms/r1/protocol/openid-connect/{{action}}'' ''{{action}}'' ''auth''
     = ''https://host/realms/r1/protocol/openid-connect/auth''"
  by code_simp

lemma derive_token:
  "replace ''https://host/realms/r1/protocol/openid-connect/{{action}}'' ''{{action}}'' ''token''
     = ''https://host/realms/r1/protocol/openid-connect/token''"
  by code_simp

lemma derive_userinfo:
  "replace ''https://host/realms/r1/protocol/openid-connect/{{action}}'' ''{{action}}'' ''userinfo''
     = ''https://host/realms/r1/protocol/openid-connect/userinfo''"
  by code_simp

lemmas derive = derive_realm derive_auth derive_token derive_userinfo

subsection \<open>Construction\<close>

lemma loadState_fields:
  "KeycloakDriver.authorizeUrl (loadState d) = KeycloakDriver.authorizeUrl d"
  "KeycloakDriver.accessTokenUrl (loadState d) = KeycloakDriver.accessTokenUrl d"
  "KeycloakDriver.userInfoUrl (loadState d) = KeycloakDriver.userInfoUrl d"
  "config (loadState d) = config d"
  by (simp_all add: loadState_def)

lemma isFalsy_iff: "isFalsy x \<longleftrightarrow> x = None \<or> x = Some []"
  by (cases x) (auto simp: isFalsy_def)

lemma new_KeycloakDriver_Inr:
  assumes "new_KeycloakDriver c cfg = Inr d"
  shows "\<not> isFalsy (realm cfg)" "\<not> isFalsy (keycloakUrl cfg)"
    "buildKeycloakUrl cfg ''auth'' = Inr (KeycloakDriver.authorizeUrl d)"
    "buildKeycloakUrl cfg ''token'' = Inr (KeycloakDriver.accessTokenUrl d)"
    "buildKeycloakUrl cfg ''userinfo'' = Inr (KeycloakDriver.userInfoUrl d)"
    "config d = cfg"
  using assms
  by (auto simp: new_KeycloakDriver_def loadState_fields split: if_splits sum.splits)

lemma identifies_realm: "identifies realmMissing ''realm''"
  unfolding identifies_def realmMissing_def by code_simp

lemma identifies_keycloakUrl: "identifies keycloakUrlMissing ''keycloakUrl''"
  unfolding identifies_def keycloakUrlMissing_def by code_simp

lemma buildKeycloakUrl_Some:
  "keycloakUrl cfg = Some u \<Longrightarrow> realm cfg = Some r \<Longrightarrow>
   buildKeycloakUrl cfg a = Inr (replace (replace u ''{{realm}}'' r) ''{{action}}'' a)"
  by (simp add: buildKeycloakUrl_def)

lemma new_example: "new_KeycloakDriver exampleContext exampleConfig = Inr exampleDriver"
  by (simp add: new_KeycloakDriver_def isFalsy_def buildKeycloakUrl_def exampleConfig_def
      derive loadState_def exampleDriver_def exampleContext_def)

lemma new_override: "new_KeycloakDriver exampleContext overrideConfig = Inr exampleOverrideDriver"
  by (simp add: new_KeycloakDriver_def isFalsy_def buildKeycloakUrl_def exampleConfig_def
      overrideConfig_def exampleOverrideDriver_def
      derive loadState_def exampleDriver_def exampleContext_def)

subsection \<open>The user-info request\<close>

lemma getAuthenticatedRequest_fields:
  "baseUrl (getAuthenticatedRequest url tok) = url"
  "headers (getAuthenticatedRequest url tok) ''Authorization'' = Some (''Bearer '' @ tok)"
  "headers (getAuthenticatedRequest url tok) ''Accept'' = Some ''application/json''"
  "responseType (getAuthenticatedRequest url tok) = Some ''json''"
  by (simp_all add: getAuthenticatedRequest_def parseAs_def header_def httpClient_def)

lemma invokeCallback_baseUrl:
  "invokeCallback cb request w = (Inr request', w') \<Longrightarrow> baseUrl request' = baseUrl request"
  by (auto simp: invokeCallback_def split: option.splits sum.splits prod.splits)

lemma toUser_object:
  "toUser (JSObject kvs) tok =
     Inr \<lparr>id' = getProperty (JSObject kvs) ''sub'',
          nickName = getProperty (JSObject kvs) ''preferred_username'',
          lastName = getProperty (JSObject kvs) ''family_name'',
          firstName = getProperty (JSObject kvs) ''given_name'',
          name = getProperty (JSObject kvs) ''name'',
          email = getProperty (JSObject kvs) ''email'',
          avatarUrl = JSNull,
          emailVerificationState =
            (if toBoolean (getProperty (JSObject kvs) ''email_verified'')
             then ''verified'' else ''unverified''),
          original = JSObject kvs,
          token = \<lparr>KeycloakAccessToken.token = tok, type = ''bearer''\<rparr>\<rparr>"
  by (simp add: toUser_def)

lemma getUserInfo_sent:
  assumes "userInfoRequest d tok cb w1 = (Inr request, w2)"
  shows "getUserInfo fw d tok cb w1 =
     (case request_get fw request w2 of
        (Inl e, w3) \<Rightarrow> (Inl e, w3)
      | (Inr u, w3) \<Rightarrow> (toUser u tok, w3))"
  using assms by (simp add: getUserInfo_def userInfoRequest_def Let_def)

lemma userInfoRequest_example:
  "userInfoRequest exampleDriver ''tok'' None exampleStart
     = (Inr (getAuthenticatedRequest
               ''https://host/realms/r1/protocol/openid-connect/userinfo'' ''tok''),
        exampleStart)"
  by (simp add: userInfoRequest_def invokeCallback_def nullishCoalescing_def exampleDriver_def
      exampleConfig_def)






lemma exchange_acceptText:
  "accessToken exchangingFramework d (Some acceptTextCallback) exampleStart
     = (Inr \<lparr>KeycloakAccessToken.token = ''tok'', type = ''bearer''\<rparr>,
        \<lparr>invocations = 1,
         sent = [header ''Accept'' ''text/plain'' (httpClient (accessTokenEndpoint d))]\<rparr>)"
  by (simp add: exchangingFramework_def invokeCallback_def acceptTextCallback_def
      exampleStart_def header_def httpClient_def)


lemma userInfoRequest_override_from:
  "userInfoRequest exampleOverrideDriver ''tok'' (Some acceptTextCallback)
       \<lparr>invocations = n, sent = rs\<rparr>
     = (Inr (header ''Accept'' ''text/plain''
               (getAuthenticatedRequest ''https://other/me'' ''tok'')),
        \<lparr>invocations = Suc n, sent = rs\<rparr>)"
  by (simp add: userInfoRequest_def invokeCallback_def nullishCoalescing_def
      exampleOverrideDriver_def overrideConfig_def exampleConfig_def acceptTextCallback_def
      header_def)

section \<open>The claims\<close>

text \<open>
  C1. For every configuration on which construction succeeds, the endpoint the driver
  uses for authorize, for the token exchange and for user info is the override that the
  configuration supplies for it, and it is the URL derived from the \<open>keycloakUrl\<close>
  template by replacing \<open>{{realm}}\<close> and \<open>{{action}}\<close> only when the configuration
  supplies none. For user info the endpoint is the URL for which \<open>userFromToken\<close> creates
  the request it sends.
\<close>

theorem override_takes_precedence:
  assumes "new_KeycloakDriver c cfg = Inr d"
  shows "(\<forall>u. KeycloakConfig.authorizeUrl cfg = Some u \<longrightarrow> authorizeEndpoint d = u)
     \<and> (KeycloakConfig.authorizeUrl cfg = None \<longrightarrow>
          buildKeycloakUrl cfg ''auth'' = Inr (authorizeEndpoint d))
     \<and> (\<forall>u. KeycloakConfig.accessTokenUrl cfg = Some u \<longrightarrow> accessTokenEndpoint d = u)
     \<and> (KeycloakConfig.accessTokenUrl cfg = None \<longrightarrow>
          buildKeycloakUrl cfg ''token'' = Inr (accessTokenEndpoint d))
     \<and> (\<forall>u. KeycloakConfig.userInfoUrl cfg = Some u \<longrightarrow> userInfoEndpoint d = u)
     \<and> (KeycloakConfig.userInfoUrl cfg = None \<longrightarrow>
          buildKeycloakUrl cfg ''userinfo'' = Inr (userInfoEndpoint d))
     \<and> userFromToken fw d tok None w =
         (case request_get fw (getAuthenticatedRequest (userInfoEndpoint d) tok) w of
            (Inl e, w2) \<Rightarrow> (Inl e, w2)
          | (Inr u, w2) \<Rightarrow> (toUser u tok, w2))"
proof -
  from assms have cfg: "config d = cfg"
    and urls: "buildKeycloakUrl cfg ''auth'' = Inr (KeycloakDriver.authorizeUrl d)"
      "buildKeycloakUrl cfg ''token'' = Inr (KeycloakDriver.accessTokenUrl d)"
      "buildKeycloakUrl cfg ''userinfo'' = Inr (KeycloakDriver.userInfoUrl d)"
    by (auto simp: new_KeycloakDriver_def loadState_fields split: if_splits sum.splits)
  have "userFromToken fw d tok None w =
      (case request_get fw (getAuthenticatedRequest (userInfoEndpoint d) tok) w of
         (Inl e, w2) \<Rightarrow> (Inl e, w2)
       | (Inr u, w2) \<Rightarrow> (toUser u tok, w2))"
    by (simp add: userFromToken_def getUserInfo_def Let_def invokeCallback_def
        userInfoEndpoint_def)
  then show ?thesis
    using cfg urls
    by (auto simp: authorizeEndpoint_def accessTokenEndpoint_def userInfoEndpoint_def
        nullishCoalescing_def)
qed

theorem override_takes_precedence_witness:
  "authorizeEndpoint exampleOverrideDriver = ''https://other/authorize''
   \<and> accessTokenEndpoint exampleOverrideDriver = ''https://other/token''
   \<and> userInfoEndpoint exampleOverrideDriver = ''https://other/me''
   \<and> sent (snd (userFromToken exchangingFramework exampleOverrideDriver ''tok'' None exampleStart))
       = [getAuthenticatedRequest ''https://other/me'' ''tok'']
   \<and> buildKeycloakUrl exampleConfig ''auth'' = Inr (authorizeEndpoint exampleDriver)
   \<and> buildKeycloakUrl exampleConfig ''token'' = Inr (accessTokenEndpoint exampleDriver)
   \<and> buildKeycloakUrl exampleConfig ''userinfo'' = Inr (userInfoEndpoint exampleDriver)
   \<and> authorizeEndpoint exampleDriver = ''https://host/realms/r1/protocol/openid-connect/auth''"
  using override_takes_precedence [OF new_override, of exchangingFramework "''tok''" exampleStart]
    override_takes_precedence [OF new_example, of exchangingFramework "''tok''" exampleStart]
  by (simp add: overrideConfig_def exampleConfig_def exchangingFramework_def exampleStart_def
      authorizeEndpoint_def nullishCoalescing_def exampleDriver_def)

text \<open>
  C2. For every configuration whose \<open>keycloakUrl\<close> is
  \<open>https://host/realms/{{realm}}/protocol/openid-connect/{{action}}\<close> and whose realm is
  \<open>r1\<close>, construction succeeds and the three endpoint fields are that template with
  \<open>{{realm}}\<close> replaced by \<open>r1\<close> and \<open>{{action}}\<close> replaced by \<open>auth\<close>, \<open>token\<close> and
  \<open>userinfo\<close>.
\<close>

theorem derived_urls_r1:
  assumes "keycloakUrl cfg = Some ''https://host/realms/{{realm}}/protocol/openid-connect/{{action}}''"
    and "realm cfg = Some ''r1''"
  shows "\<exists>d. new_KeycloakDriver c cfg = Inr d
     \<and> KeycloakDriver.authorizeUrl d = ''https://host/realms/r1/protocol/openid-connect/auth''
     \<and> KeycloakDriver.accessTokenUrl d = ''https://host/realms/r1/protocol/openid-connect/token''
     \<and> KeycloakDriver.userInfoUrl d = ''https://host/realms/r1/protocol/openid-connect/userinfo''"
  using assms
  by (simp add: new_KeycloakDriver_def isFalsy_def buildKeycloakUrl_def derive loadState_fields)

theorem derived_urls_r1_witness:
  "keycloakUrl exampleConfig = Some ''https://host/realms/{{realm}}/protocol/openid-connect/{{action}}''
   \<and> realm exampleConfig = Some ''r1''
   \<and> (\<exists>d. new_KeycloakDriver exampleContext exampleConfig = Inr d
     \<and> KeycloakDriver.authorizeUrl d = ''https://host/realms/r1/protocol/openid-connect/auth''
     \<and> KeycloakDriver.accessTokenUrl d = ''https://host/realms/r1/protocol/openid-connect/token''
     \<and> KeycloakDriver.userInfoUrl d = ''https://host/realms/r1/protocol/openid-connect/userinfo'')"
  using derived_urls_r1 [of exampleConfig exampleContext]
  by (simp add: exampleConfig_def)

text \<open>
  C3, as amended. A realm that is absent or the empty string makes the constructor
  throw the error whose message identifies \<open>realm\<close>; with a non-empty realm, a
  \<open>keycloakUrl\<close> that is absent or the empty string makes it throw the error whose
  message identifies \<open>keycloakUrl\<close>; in both cases there is no driver. With both
  non-empty, construction yields a driver.
\<close>

theorem constructor_validation:
  "(realm cfg = None \<or> realm cfg = Some [] \<longrightarrow>
      new_KeycloakDriver c cfg = Inl (Error realmMissing) \<and> identifies realmMissing ''realm'')
   \<and> (realm cfg \<noteq> None \<and> realm cfg \<noteq> Some []
        \<and> (keycloakUrl cfg = None \<or> keycloakUrl cfg = Some []) \<longrightarrow>
      new_KeycloakDriver c cfg = Inl (Error keycloakUrlMissing)
      \<and> identifies keycloakUrlMissing ''keycloakUrl'')
   \<and> (realm cfg \<noteq> None \<and> realm cfg \<noteq> Some []
        \<and> keycloakUrl cfg \<noteq> None \<and> keycloakUrl cfg \<noteq> Some [] \<longrightarrow>
      (\<exists>d. new_KeycloakDriver c cfg = Inr d))"
  by (auto simp: new_KeycloakDriver_def isFalsy_iff identifies_realm identifies_keycloakUrl
      buildKeycloakUrl_def)

theorem constructor_validation_witness:
  "new_KeycloakDriver exampleContext (exampleConfig\<lparr>realm := None\<rparr>) = Inl (Error realmMissing)
   \<and> identifies realmMissing ''realm''
   \<and> new_KeycloakDriver exampleContext (exampleConfig\<lparr>keycloakUrl := None\<rparr>)
       = Inl (Error keycloakUrlMissing)
   \<and> identifies keycloakUrlMissing ''keycloakUrl''
   \<and> (\<exists>d. new_KeycloakDriver exampleContext exampleConfig = Inr d)"
  using constructor_validation [of "exampleConfig\<lparr>realm := None\<rparr>" exampleContext]
    constructor_validation [of "exampleConfig\<lparr>keycloakUrl := None\<rparr>" exampleContext]
    constructor_validation [of exampleConfig exampleContext]
  by (simp add: exampleConfig_def)

text \<open>
  C3 as stated fails: an empty realm is present in the configuration, and so is the
  \<open>keycloakUrl\<close>, yet construction throws the realm error.
\<close>

theorem constructor_empty_realm_counterexample:
  "realm emptyRealmConfig \<noteq> None \<and> keycloakUrl emptyRealmConfig \<noteq> None
   \<and> new_KeycloakDriver exampleContext emptyRealmConfig = Inl (Error realmMissing)"
  by (simp add: new_KeycloakDriver_def isFalsy_def emptyRealmConfig_def exampleConfig_def)

text \<open>
  C4, as amended. \<open>accessDenied\<close> is true if and only if the request's \<open>error\<close> input is
  the string \<open>user_denied\<close>, where the input is the \<open>error\<close> query parameter and, when
  the query string has none, the \<open>error\<close> field of the body; it is false for every other
  value and when both are absent.
\<close>

theorem accessDenied_input:
  "accessDenied d \<longleftrightarrow>
     qs (ctx d) ''error'' = Some (JSString ''user_denied'')
     \<or> (qs (ctx d) ''error'' = None \<and> body (ctx d) ''error'' = Some (JSString ''user_denied''))"
proof -
  have "strictEqualsString v ''user_denied'' \<longleftrightarrow> v = JSString ''user_denied''" for v
    by (cases v) auto
  then show ?thesis
    by (auto simp: accessDenied_def input_def split: option.splits)
qed

text \<open>
  C4 as stated fails: for a request with no \<open>error\<close> query parameter whose body has
  \<open>error\<close> with the value \<open>user_denied\<close>, \<open>accessDenied\<close> is true.
\<close>

theorem accessDenied_body_counterexample:
  "\<not> isl (new_KeycloakDriver bodyDeniedContext exampleConfig)
   \<and> qs (ctx (projr (new_KeycloakDriver bodyDeniedContext exampleConfig))) ''error'' = None
   \<and> accessDenied (projr (new_KeycloakDriver bodyDeniedContext exampleConfig))"
  by (simp add: new_KeycloakDriver_def isFalsy_def buildKeycloakUrl_def exampleConfig_def
      derive loadState_def accessDenied_def input_def bodyDeniedContext_def)

text \<open>
  C5. When the user-info fetch answers with a JSON object, \<open>userFromToken\<close>, and
  \<open>user\<close> after a code exchange that yields the same token, return the record with
  \<open>id\<close> from \<open>sub\<close>, \<open>nickName\<close> from \<open>preferred_username\<close>, \<open>firstName\<close> from
  \<open>given_name\<close>, \<open>lastName\<close> from \<open>family_name\<close>, \<open>name\<close> from \<open>name\<close>, \<open>email\<close> from
  \<open>email\<close>, \<open>avatarUrl\<close> null, \<open>emailVerificationState\<close> \<open>verified\<close> when
  \<open>email_verified\<close> is true and \<open>unverified\<close> when it is false, the token with type
  \<open>bearer\<close>, and \<open>original\<close> the payload itself.
\<close>

theorem user_record_from_payload:
  assumes "userInfoRequest d tok cb w1 = (Inr request, w2)"
    and "request_get fw request w2 = (Inr (JSObject payload), w3)"
  shows "\<exists>u. userFromToken fw d tok cb w1 = (Inr u, w3)
     \<and> (\<forall>t w0. accessToken fw d cb w0 = (Inr t, w1) \<and> KeycloakAccessToken.token t = tok
          \<longrightarrow> user fw d cb w0 = (Inr u, w3))
     \<and> id' u = getProperty (JSObject payload) ''sub''
     \<and> nickName u = getProperty (JSObject payload) ''preferred_username''
     \<and> firstName u = getProperty (JSObject payload) ''given_name''
     \<and> lastName u = getProperty (JSObject payload) ''family_name''
     \<and> name u = getProperty (JSObject payload) ''name''
     \<and> email u = getProperty (JSObject payload) ''email''
     \<and> avatarUrl u = JSNull
     \<and> (getProperty (JSObject payload) ''email_verified'' = JSBoolean True
          \<longrightarrow> emailVerificationState u = ''verified'')
     \<and> (getProperty (JSObject payload) ''email_verified'' = JSBoolean False
          \<longrightarrow> emailVerificationState u = ''unverified'')
     \<and> token u = \<lparr>KeycloakAccessToken.token = tok, type = ''bearer''\<rparr>
     \<and> original u = JSObject payload"
proof -
  have g: "getUserInfo fw d tok cb w1 = (toUser (JSObject payload) tok, w3)"
    using getUserInfo_sent [OF assms(1), of fw] assms(2) by simp
  show ?thesis
    unfolding userFromToken_def user_def g toUser_object
    by (auto simp: g toUser_object)
qed

theorem user_record_from_payload_witness:
  "userFromToken (exampleFramework True) exampleDriver ''tok'' None exampleStart =
     (Inr \<lparr>id' = JSString ''u1'', nickName = JSString ''bob'', lastName = JSString ''Smith'',
           firstName = JSString ''Bob'', name = JSString ''Bob Smith'',
           email = JSString ''b@x.com'', avatarUrl = JSNull,
           emailVerificationState = ''verified'', original = examplePayload True,
           token = \<lparr>KeycloakAccessToken.token = ''tok'', type = ''bearer''\<rparr>\<rparr>,
      exampleStart\<lparr>sent := [getAuthenticatedRequest
         ''https://host/realms/r1/protocol/openid-connect/userinfo'' ''tok'']\<rparr>)
   \<and> user (exampleFramework True) exampleDriver None exampleStart =
       userFromToken (exampleFramework True) exampleDriver ''tok'' None exampleStart
   \<and> emailVerificationState
        (projr (fst (userFromToken (exampleFramework False) exampleDriver ''tok'' None
                       exampleStart)))
       = ''unverified''"
proof -
  let ?r = "getAuthenticatedRequest
      ''https://host/realms/r1/protocol/openid-connect/userinfo'' ''tok''"
  let ?w = "exampleStart\<lparr>sent := [?r]\<rparr>"
  have get: "request_get (exampleFramework b) ?r exampleStart = (Inr (examplePayload b), ?w)"
    for b
    by (simp add: exampleFramework_def exampleStart_def)
  have ex: "accessToken (exampleFramework b) exampleDriver None exampleStart
      = (Inr \<lparr>KeycloakAccessToken.token = ''tok'', type = ''bearer''\<rparr>, exampleStart)" for b
    by (simp add: exampleFramework_def)
  note t = user_record_from_payload
    [OF userInfoRequest_example get [unfolded examplePayload_def]]
  from t [of True] obtain u where
    u: "userFromToken (exampleFramework True) exampleDriver ''tok'' None exampleStart
          = (Inr u, ?w)"
    and viaUser: "\<forall>t w0.
          accessToken (exampleFramework True) exampleDriver None w0 = (Inr t, exampleStart)
          \<and> KeycloakAccessToken.token t = ''tok''
          \<longrightarrow> user (exampleFramework True) exampleDriver None w0 = (Inr u, ?w)"
    and fields: "id' u = JSString ''u1''" "nickName u = JSString ''bob''"
      "firstName u = JSString ''Bob''" "lastName u = JSString ''Smith''"
      "name u = JSString ''Bob Smith''" "email u = JSString ''b@x.com''"
      "avatarUrl u = JSNull" "emailVerificationState u = ''verified''"
      "token u = \<lparr>KeycloakAccessToken.token = ''tok'', type = ''bearer''\<rparr>"
      "original u = examplePayload True"
    by (auto simp: examplePayload_def)
  have 1: "u = \<lparr>id' = JSString ''u1'', nickName = JSString ''bob'', lastName = JSString ''Smith'',
           firstName = JSString ''Bob'', name = JSString ''Bob Smith'',
           email = JSString ''b@x.com'', avatarUrl = JSNull,
           emailVerificationState = ''verified'', original = examplePayload True,
           token = \<lparr>KeycloakAccessToken.token = ''tok'', type = ''bearer''\<rparr>\<rparr>"
    by (rule KeycloakUserContract.equality) (simp_all add: fields)
  have 2: "user (exampleFramework True) exampleDriver None exampleStart = (Inr u, ?w)"
    by (rule viaUser [rule_format]) (intro conjI, rule ex, simp)
  from t [of False] obtain v where
    v: "userFromToken (exampleFramework False) exampleDriver ''tok'' None exampleStart
          = (Inr v, ?w)"
    and "emailVerificationState v = ''unverified''"
    by (auto simp: examplePayload_def)
  then show ?thesis
    using u 1 2 by simp
qed

text \<open>
  C6. For a driver constructed from a configuration, the request that \<open>userFromToken\<close>
  sends, and that \<open>user\<close> sends after a code exchange that yields the same token, has
  the \<open>userInfoUrl\<close> override as its URL when the configuration supplies one, and the
  URL derived from the template when it supplies none.
\<close>

theorem userInfo_fetch_target:
  assumes "new_KeycloakDriver c cfg = Inr d"
    and "userInfoRequest d tok cb w = (Inr request, w')"
  shows "(\<forall>u. KeycloakConfig.userInfoUrl cfg = Some u \<longrightarrow> baseUrl request = u)
     \<and> (KeycloakConfig.userInfoUrl cfg = None \<longrightarrow>
          buildKeycloakUrl cfg ''userinfo'' = Inr (baseUrl request))
     \<and> userFromToken fw d tok cb w =
         (case request_get fw request w' of
            (Inl e, w2) \<Rightarrow> (Inl e, w2)
          | (Inr u, w2) \<Rightarrow> (toUser u tok, w2))
     \<and> (\<forall>t w0. accessToken fw d cb w0 = (Inr t, w) \<and> KeycloakAccessToken.token t = tok \<longrightarrow>
          user fw d cb w0 =
            (case request_get fw request w' of
               (Inl e, w2) \<Rightarrow> (Inl e, w2)
             | (Inr u, w2) \<Rightarrow> (toUser u tok, w2)))"
proof -
  from assms(1) have cfg: "config d = cfg"
    and ui: "buildKeycloakUrl cfg ''userinfo'' = Inr (KeycloakDriver.userInfoUrl d)"
    by (auto simp: new_KeycloakDriver_def loadState_fields split: if_splits sum.splits)
  let ?url = "nullishCoalescing (KeycloakConfig.userInfoUrl (config d))
      (KeycloakDriver.userInfoUrl d)"
  from assms(2)
  have req: "invokeCallback cb (getAuthenticatedRequest ?url tok) w = (Inr request, w')"
    by (simp add: userInfoRequest_def)
  have u1: "userFromToken fw d tok cb w =
      (case request_get fw request w' of
         (Inl e, w2) \<Rightarrow> (Inl e, w2)
       | (Inr u, w2) \<Rightarrow> (toUser u tok, w2))"
    using req by (simp add: userFromToken_def getUserInfo_def Let_def)
  have u2: "user fw d cb w0 =
      (case request_get fw request w' of
         (Inl e, w2) \<Rightarrow> (Inl e, w2)
       | (Inr u, w2) \<Rightarrow> (toUser u tok, w2))"
    if "accessToken fw d cb w0 = (Inr t, w)" "KeycloakAccessToken.token t = tok" for t w0
  proof -
    have "user fw d cb w0 = getUserInfo fw d tok cb w"
      using that by (simp add: user_def)
    also have "\<dots> =
      (case request_get fw request w' of
         (Inl e, w2) \<Rightarrow> (Inl e, w2)
       | (Inr u, w2) \<Rightarrow> (toUser u tok, w2))"
      using req by (simp add: getUserInfo_def Let_def)
    finally show ?thesis .
  qed
  have "baseUrl request = ?url"
    using invokeCallback_baseUrl [OF req] by (simp add: getAuthenticatedRequest_fields)
  then show ?thesis
    using cfg ui u1 u2
    by (auto simp: nullishCoalescing_def split: option.splits)
qed

theorem userInfo_fetch_target_witness:
  "sent (snd (userFromToken exchangingFramework exampleOverrideDriver ''tok''
                (Some acceptTextCallback) exampleStart))
     = [header ''Accept'' ''text/plain'' (getAuthenticatedRequest ''https://other/me'' ''tok'')]
   \<and> sent (snd (user exchangingFramework exampleOverrideDriver
                (Some acceptTextCallback) exampleStart))
     = [header ''Accept'' ''text/plain'' (httpClient ''https://other/token''),
        header ''Accept'' ''text/plain'' (getAuthenticatedRequest ''https://other/me'' ''tok'')]
   \<and> baseUrl (header ''Accept'' ''text/plain''
                (getAuthenticatedRequest ''https://other/me'' ''tok'')) = ''https://other/me''
   \<and> sent (snd (userFromToken exchangingFramework exampleDriver ''tok'' None exampleStart))
     = [getAuthenticatedRequest
          ''https://host/realms/r1/protocol/openid-connect/userinfo'' ''tok'']
   \<and> buildKeycloakUrl exampleConfig ''userinfo''
     = Inr (baseUrl (getAuthenticatedRequest
          ''https://host/realms/r1/protocol/openid-connect/userinfo'' ''tok''))"
proof -
  note a = userInfo_fetch_target [OF new_override
      userInfoRequest_override_from [of 0 "[]", folded exampleStart_def],
      of exchangingFramework]
  note b = userInfo_fetch_target [OF new_override userInfoRequest_override_from,
      of exchangingFramework]
  note c = userInfo_fetch_target [OF new_example userInfoRequest_example, of exchangingFramework]
  have ex: "accessToken exchangingFramework exampleOverrideDriver (Some acceptTextCallback)
        exampleStart
      = (Inr \<lparr>KeycloakAccessToken.token = ''tok'', type = ''bearer''\<rparr>,
         \<lparr>invocations = 1,
          sent = [header ''Accept'' ''text/plain'' (httpClient ''https://other/token'')]\<rparr>)"
    using exchange_acceptText [of exampleOverrideDriver]
    by (simp add: accessTokenEndpoint_def nullishCoalescing_def exampleOverrideDriver_def
        overrideConfig_def)
  from a have 1: "sent (snd (userFromToken exchangingFramework exampleOverrideDriver ''tok''
                (Some acceptTextCallback) exampleStart))
     = [header ''Accept'' ''text/plain'' (getAuthenticatedRequest ''https://other/me'' ''tok'')]"
    by (simp add: exchangingFramework_def)
  note viaUser = b [of 1 "[header ''Accept'' ''text/plain'' (httpClient ''https://other/token'')]",
      THEN conjunct2, THEN conjunct2, THEN conjunct2, rule_format, OF conjI [OF ex]]
  from viaUser
  have 2: "sent (snd (user exchangingFramework exampleOverrideDriver
                (Some acceptTextCallback) exampleStart))
     = [header ''Accept'' ''text/plain'' (httpClient ''https://other/token''),
        header ''Accept'' ''text/plain'' (getAuthenticatedRequest ''https://other/me'' ''tok'')]"
    by (simp add: exchangingFramework_def)
  from a have 3: "baseUrl (header ''Accept'' ''text/plain''
                (getAuthenticatedRequest ''https://other/me'' ''tok'')) = ''https://other/me''"
    by (simp add: overrideConfig_def)
  from c have 4: "sent (snd (userFromToken exchangingFramework exampleDriver ''tok'' None
        exampleStart))
     = [getAuthenticatedRequest
          ''https://host/realms/r1/protocol/openid-connect/userinfo'' ''tok'']"
    by (simp add: exchangingFramework_def exampleStart_def)
  from c have 5: "buildKeycloakUrl exampleConfig ''userinfo''
     = Inr (baseUrl (getAuthenticatedRequest
          ''https://host/realms/r1/protocol/openid-connect/userinfo'' ''tok''))"
    by (simp add: exampleConfig_def)
  from 1 2 3 4 5 show ?thesis by simp
qed




text \<open>
  C8. With a customizer supplied, \<open>userFromToken\<close>, and \<open>user\<close> once its code exchange
  has yielded the token, run the customizer once on the user-info request, which by
  then has the URL, the \<open>Authorization\<close> and \<open>Accept\<close> headers and the JSON parse mode
  set by the driver. If it fails, nothing is sent and its error is the result. If it
  returns, the request as it left it is the one that is sent, from the state it left,
  so what it has set stands in place of the driver's settings. The code exchange of
  \<open>user\<close> runs the customizer too, on its own request.
\<close>

theorem customizer_runs_once_on_configured_request:
  assumes "url = nullishCoalescing (KeycloakConfig.userInfoUrl (config d))
                   (KeycloakDriver.userInfoUrl d)"
  shows "getAuthenticatedRequest url tok =
       \<lparr>baseUrl = url,
        headers = [''Authorization'' \<mapsto> ''Bearer '' @ tok, ''Accept'' \<mapsto> ''application/json''],
        params = Map.empty, responseType = Some ''json''\<rparr>
     \<and> (\<forall>request' w'. f (getAuthenticatedRequest url tok) w = (Inr request', w') \<longrightarrow>
          userFromToken fw d tok (Some f) w =
            (case request_get fw (request'\<lparr>baseUrl := url\<rparr>) w' of
               (Inl e, w2) \<Rightarrow> (Inl e, w2)
             | (Inr u, w2) \<Rightarrow> (toUser u tok, w2))
          \<and> (\<forall>t w0. accessToken fw d (Some f) w0 = (Inr t, w)
                 \<and> KeycloakAccessToken.token t = tok \<longrightarrow>
               user fw d (Some f) w0 =
                 (case request_get fw (request'\<lparr>baseUrl := url\<rparr>) w' of
                    (Inl e, w2) \<Rightarrow> (Inl e, w2)
                  | (Inr u, w2) \<Rightarrow> (toUser u tok, w2))))
     \<and> (\<forall>e w'. f (getAuthenticatedRequest url tok) w = (Inl e, w') \<longrightarrow>
          userFromToken fw d tok (Some f) w = (Inl e, w')
          \<and> (\<forall>t w0. accessToken fw d (Some f) w0 = (Inr t, w)
                 \<and> KeycloakAccessToken.token t = tok \<longrightarrow>
               user fw d (Some f) w0 = (Inl e, w')))"
proof (intro conjI allI impI)
  show "getAuthenticatedRequest url tok =
       \<lparr>baseUrl = url,
        headers = [''Authorization'' \<mapsto> ''Bearer '' @ tok, ''Accept'' \<mapsto> ''application/json''],
        params = Map.empty, responseType = Some ''json''\<rparr>"
    by (simp add: getAuthenticatedRequest_def parseAs_def header_def httpClient_def)
next
  fix request' w'
  assume f: "f (getAuthenticatedRequest url tok) w = (Inr request', w')"
  have g: "getUserInfo fw d tok (Some f) w =
                 (case request_get fw (request'\<lparr>baseUrl := url\<rparr>) w' of
                    (Inl e, w2) \<Rightarrow> (Inl e, w2)
                  | (Inr u, w2) \<Rightarrow> (toUser u tok, w2))"
    using f assms
    by (simp add: getUserInfo_def Let_def invokeCallback_def getAuthenticatedRequest_fields)
  then show "userFromToken fw d tok (Some f) w =
                 (case request_get fw (request'\<lparr>baseUrl := url\<rparr>) w' of
                    (Inl e, w2) \<Rightarrow> (Inl e, w2)
                  | (Inr u, w2) \<Rightarrow> (toUser u tok, w2))"
    by (simp add: userFromToken_def)
  fix t w0
  assume "accessToken fw d (Some f) w0 = (Inr t, w) \<and> KeycloakAccessToken.token t = tok"
  then have "user fw d (Some f) w0 = getUserInfo fw d tok (Some f) w"
    by (simp add: user_def)
  then show "user fw d (Some f) w0 =
                 (case request_get fw (request'\<lparr>baseUrl := url\<rparr>) w' of
                    (Inl e, w2) \<Rightarrow> (Inl e, w2)
                  | (Inr u, w2) \<Rightarrow> (toUser u tok, w2))"
    using g by (rule trans)
next
  fix e w'
  assume f: "f (getAuthenticatedRequest url tok) w = (Inl e, w')"
  have g: "getUserInfo fw d tok (Some f) w = (Inl e, w')"
    using f assms by (simp add: getUserInfo_def Let_def invokeCallback_def)
  then show "userFromToken fw d tok (Some f) w = (Inl e, w')"
    by (simp add: userFromToken_def)
  fix t w0
  assume "accessToken fw d (Some f) w0 = (Inr t, w) \<and> KeycloakAccessToken.token t = tok"
  then have "user fw d (Some f) w0 = getUserInfo fw d tok (Some f) w"
    by (simp add: user_def)
  with g show "user fw d (Some f) w0 = (Inl e, w')"
    by simp
qed

theorem customizer_runs_once_on_configured_request_witness:
  "userFromToken exchangingFramework exampleDriver ''tok'' (Some acceptTextCallback) exampleStart
     = (toUser (examplePayload True) ''tok'',
        \<lparr>invocations = 1,
         sent = [\<lparr>baseUrl = ''https://host/realms/r1/protocol/openid-connect/userinfo'',
                  headers = [''Authorization'' \<mapsto> ''Bearer tok'', ''Accept'' \<mapsto> ''text/plain''],
                  params = Map.empty, responseType = Some ''json''\<rparr>]\<rparr>)
   \<and> user exchangingFramework exampleDriver (Some acceptTextCallback) exampleStart
     = (toUser (examplePayload True) ''tok'',
        \<lparr>invocations = 2,
         sent = [\<lparr>baseUrl = ''https://host/realms/r1/protocol/openid-connect/token'',
                  headers = [''Accept'' \<mapsto> ''text/plain''],
                  params = Map.empty, responseType = None\<rparr>,
                 \<lparr>baseUrl = ''https://host/realms/r1/protocol/openid-connect/userinfo'',
                  headers = [''Authorization'' \<mapsto> ''Bearer tok'', ''Accept'' \<mapsto> ''text/plain''],
                  params = Map.empty, responseType = Some ''json''\<rparr>]\<rparr>)"
proof -
  let ?url = "''https://host/realms/r1/protocol/openid-connect/userinfo''"
  let ?R = "header ''Accept'' ''text/plain'' (getAuthenticatedRequest ?url ''tok'')"
  let ?T = "header ''Accept'' ''text/plain''
      (httpClient ''https://host/realms/r1/protocol/openid-connect/token'')"
  have url: "?url = nullishCoalescing (KeycloakConfig.userInfoUrl (config exampleDriver))
               (KeycloakDriver.userInfoUrl exampleDriver)"
    by (simp add: nullishCoalescing_def exampleDriver_def exampleConfig_def)
  note t = customizer_runs_once_on_configured_request [OF url, of "''tok''" acceptTextCallback _
      exchangingFramework]
  have cb: "acceptTextCallback (getAuthenticatedRequest ?url ''tok'') \<lparr>invocations = n, sent = rs\<rparr>
      = (Inr ?R, \<lparr>invocations = Suc n, sent = rs\<rparr>)" for n rs
    by (simp add: acceptTextCallback_def)
  have ex: "accessToken exchangingFramework exampleDriver (Some acceptTextCallback) exampleStart
      = (Inr \<lparr>KeycloakAccessToken.token = ''tok'', type = ''bearer''\<rparr>,
         \<lparr>invocations = 1, sent = [?T]\<rparr>)"
    using exchange_acceptText [of exampleDriver]
    by (simp add: accessTokenEndpoint_def nullishCoalescing_def exampleDriver_def
        exampleConfig_def)
  note t0 = t [of exampleStart, THEN conjunct2, THEN conjunct1, rule_format,
      OF cb [of 0 "[]", folded exampleStart_def], THEN conjunct1]
  note t1 = t [of "\<lparr>invocations = 1, sent = [?T]\<rparr>", THEN conjunct2, THEN conjunct1, rule_format,
      OF cb, THEN conjunct2, rule_format, OF conjI [OF ex]]
  have R: "?R\<lparr>baseUrl := ?url\<rparr> =
      \<lparr>baseUrl = ?url,
       headers = [''Authorization'' \<mapsto> ''Bearer tok'', ''Accept'' \<mapsto> ''text/plain''],
       params = Map.empty, responseType = Some ''json''\<rparr>"
    by (simp add: getAuthenticatedRequest_def parseAs_def header_def httpClient_def
        fun_upd_twist)
  have T: "?T = \<lparr>baseUrl = ''https://host/realms/r1/protocol/openid-connect/token'',
                  headers = [''Accept'' \<mapsto> ''text/plain''],
                  params = Map.empty, responseType = None\<rparr>"
    by (simp add: header_def httpClient_def)
  from t0 t1 show ?thesis
    unfolding R T by (simp add: exchangingFramework_def)
qed

text \<open>
  C9. For every customizer, in a run of \<open>user\<close> whose code exchange yields the access
  token \<open>t\<close>, \<open>user\<close> returns what \<open>userFromToken\<close> returns for the token string of
  \<open>t\<close> and the same customizer, started where the exchange ended: the same fetch and
  the same mapping, without the exchange.
\<close>

theorem user_equals_userFromToken:
  assumes "accessToken fw d cb w = (Inr t, w')"
  shows "user fw d cb w = userFromToken fw d (KeycloakAccessToken.token t) cb w'"
  using assms by (simp add: user_def userFromToken_def)

theorem user_equals_userFromToken_witness:
  "accessToken (exampleFramework True) exampleDriver (Some acceptTextCallback) exampleStart
     = (Inr \<lparr>KeycloakAccessToken.token = ''tok'', type = ''bearer''\<rparr>, exampleStart)
   \<and> user (exampleFramework True) exampleDriver (Some acceptTextCallback) exampleStart
     = userFromToken (exampleFramework True) exampleDriver ''tok'' (Some acceptTextCallback)
         exampleStart"
proof -
  have ex: "accessToken (exampleFramework True) exampleDriver (Some acceptTextCallback)
        exampleStart
     = (Inr \<lparr>KeycloakAccessToken.token = ''tok'', type = ''bearer''\<rparr>, exampleStart)"
    by (simp add: exampleFramework_def)
  show ?thesis
    using user_equals_userFromToken [OF ex] ex by simp
qed

text \<open>
  C10. The code departs from the claim for a realm with a replacement pattern. With the
  template \<open>{{realm}}/{{action}}\<close> and the realm \<open>a$$b\<close>, substituting the realm for
  the first \<open>{{realm}}\<close> and \<open>auth\<close> for the first \<open>{{action}}\<close> gives
  \<open>a$$b/auth\<close>; \<open>buildKeycloakUrl\<close> gives \<open>a$b/auth\<close>, and that is the
  \<open>authorizeUrl\<close> of the constructed driver, because \<open>replace\<close> expands \<open>$$\<close> in the
  realm.
\<close>

theorem buildKeycloakUrl_dollar_realm:
  "buildKeycloakUrl dollarConfig ''auth'' = Inr ''a$b/auth''
   \<and> replaceFirst ''{{action}}'' ''auth''
        (replaceFirst ''{{realm}}'' ''a$$b'' ''{{realm}}/{{action}}'') = ''a$$b/auth''
   \<and> KeycloakDriver.authorizeUrl (projr (new_KeycloakDriver exampleContext dollarConfig))
       = ''a$b/auth''"
proof -
  have 1: "replace ''{{realm}}/{{action}}'' ''{{realm}}'' ''a$$b'' = ''a$b/{{action}}''"
    by code_simp
  have 2: "replace ''a$b/{{action}}'' ''{{action}}'' ''auth'' = ''a$b/auth''"
    by code_simp
  have 3: "replaceFirst ''{{action}}'' ''auth''
        (replaceFirst ''{{realm}}'' ''a$$b'' ''{{realm}}/{{action}}'') = ''a$$b/auth''"
    by code_simp
  show ?thesis
    using 1 2 3
    by (simp add: buildKeycloakUrl_def new_KeycloakDriver_def isFalsy_def dollarConfig_def
        exampleConfig_def loadState_fields)
qed

end
